theory Spec2Isabelle
  imports Main
begin

section \<open>Values exchanged with the HTTP layer\<close>

text \<open>
  A response is what \<^verbatim>\<open>res.status(c).json(o)\<close> sends: a status code and a JSON value.
  Objects are association lists in the order the controller writes the keys.
\<close>

datatype json =
    JNull
  | JStr string
  | JBool bool
  | JNum nat
  | JObj "(string \<times> json) list"
  | JArr "json list"

datatype reply = Reply (code: nat) (payload: json)

text \<open>Reading a key of a JSON object; \<open>None\<close> when the key is not there.\<close>

definition field :: "json \<Rightarrow> string \<Rightarrow> json option" where
  "field j k = (case j of JObj kvs \<Rightarrow> map_of kvs k | _ \<Rightarrow> None)"

definition keys :: "json \<Rightarrow> string list" where
  "keys j = (case j of JObj kvs \<Rightarrow> map fst kvs | _ \<Rightarrow> [])"

text \<open>
  \<^verbatim>\<open>req.body\<close>, \<^verbatim>\<open>req.query\<close>: a field is a string or is absent (\<^verbatim>\<open>undefined\<close>).
  \<open>val\<close> reads a field the way the controllers use it after a truthiness test, and
  \<open>truthy\<close> is JavaScript's truthiness on such a field: absent and the empty string are
  falsy, every other string is truthy.
\<close>

type_synonym fields = "string \<rightharpoonup> string"

definition val :: "string option \<Rightarrow> string" where
  "val v = (case v of None \<Rightarrow> [] | Some s \<Rightarrow> s)"

definition truthy :: "string option \<Rightarrow> bool" where
  "truthy v = (val v \<noteq> [])"

text \<open>
  The errors of \<^verbatim>\<open>../errors/index.js\<close> that the controllers throw, with their message.
  \<open>OtherError name message\<close> is an exception thrown by a library.
\<close>

datatype error =
    BadRequestError string
  | UnauthenticatedError string
  | NotFoundError string
  | OtherError string string

definition errorName :: "error \<Rightarrow> string" where
  "errorName e = (case e of
      BadRequestError _ \<Rightarrow> ''BadRequestError''
    | UnauthenticatedError _ \<Rightarrow> ''UnauthenticatedError''
    | NotFoundError _ \<Rightarrow> ''NotFoundError''
    | OtherError n _ \<Rightarrow> n)"

definition errorMessage :: "error \<Rightarrow> string" where
  "errorMessage e = (case e of
      BadRequestError m \<Rightarrow> m
    | UnauthenticatedError m \<Rightarrow> m
    | NotFoundError m \<Rightarrow> m
    | OtherError _ m \<Rightarrow> m)"

section \<open>The User collection\<close>

text \<open>
  A document of the \<^verbatim>\<open>User\<close> collection, with the paths the controllers read and
  write. \<open>password\<close> holds the stored hash; it is \<open>None\<close> on a document loaded with
  \<^verbatim>\<open>.select('-password')\<close>. The profile paths are absent (\<open>None\<close>) until set.
\<close>

record user =
  uid :: string
  email :: string
  password :: "string option"
  role :: string
  firstName :: "string option"
  middleName :: "string option"
  lastName :: "string option"
  phone :: "string option"
  schoolId :: "string option"
  licenseId :: "string option"
  sex :: "string option"
  approved :: bool
  status :: string
  disapprovalReason :: "string option"
  createdAt :: nat

type_synonym store = "user list"

definition findOne :: "(user \<Rightarrow> bool) \<Rightarrow> store \<Rightarrow> user option" where
  "findOne q db = find q db"

definition findById :: "store \<Rightarrow> string \<Rightarrow> user option" where
  "findById db i = findOne (\<lambda>u. uid u = i) db"

text \<open>
  \<^verbatim>\<open>user.save()\<close>: a document made by \<^verbatim>\<open>new User(...)\<close> is inserted (\<open>saveNew\<close>), a
  document that was loaded from the collection replaces the stored one with its
  \<^verbatim>\<open>_id\<close>. Schema validation and the unique indexes of the model are not part of the
  controllers and are not modelled.
\<close>

definition saveNew :: "store \<Rightarrow> user \<Rightarrow> store" where
  "saveNew db u = db @ [u]"

definition save :: "store \<Rightarrow> user \<Rightarrow> store" where
  "save db u =
     (if uid u \<in> set (map uid db)
      then map (\<lambda>d. if uid d = uid u then u else d) db
      else db @ [u])"

definition findByIdAndDelete :: "store \<Rightarrow> string \<Rightarrow> store" where
  "findByIdAndDelete db i = filter (\<lambda>d. uid d \<noteq> i) db"

definition selectNoPassword :: "user \<Rightarrow> user" where
  "selectNoPassword u = u\<lparr>password := None\<rparr>"

text \<open>
  Serialisation of a document by \<^verbatim>\<open>res.json\<close>: the paths that are loaded on it are
  written, which is the default of the store's library; a path that is absent is not
  written. The controllers rely on this when they drop the hash with
  \<^verbatim>\<open>.select('-password')\<close> before answering.
\<close>

definition optField :: "string \<Rightarrow> string option \<Rightarrow> (string \<times> json) list" where
  "optField k v = (case v of None \<Rightarrow> [] | Some s \<Rightarrow> [(k, JStr s)])"

definition toJSON :: "user \<Rightarrow> json" where
  "toJSON u = JObj (
      [(''_id'', JStr (uid u)), (''email'', JStr (email u))]
      @ optField ''password'' (password u)
      @ [(''role'', JStr (role u))]
      @ optField ''firstName'' (firstName u)
      @ optField ''middleName'' (middleName u)
      @ optField ''lastName'' (lastName u)
      @ optField ''phone'' (phone u)
      @ optField ''schoolId'' (schoolId u)
      @ optField ''licenseId'' (licenseId u)
      @ optField ''sex'' (sex u)
      @ [(''approved'', JBool (approved u)), (''status'', JStr (status u))]
      @ optField ''disapprovalReason'' (disapprovalReason u)
      @ [(''createdAt'', JNum (createdAt u))])"

definition userJSON :: "user option \<Rightarrow> json" where
  "userJSON r = (case r of None \<Rightarrow> JNull | Some u \<Rightarrow> toJSON u)"

section \<open>Collaborators\<close>

text \<open>
  The methods of the \<^verbatim>\<open>User\<close> model, \<^verbatim>\<open>jsonwebtoken\<close>, the regular expression
  engine of the store and the string functions of the language are outside the
  controllers; they are parameters of the model.
  \<^item> \<open>hashPassword\<close> is the hashing the model applies to the password of a new document
    when it is saved; \<open>comparePassword\<close> receives the password field of the request as
    it is.
  \<^item> \<open>createAccessToken u t\<close> and \<open>createRefreshToken u t\<close> are the tokens that
    \<^verbatim>\<open>user.createAccessToken()\<close> and \<^verbatim>\<open>user.createRefreshToken()\<close> sign for \<open>u\<close> when
    they are called at the instant \<open>t\<close>.
  \<^item> \<open>jwtVerify tok t\<close> is \<^verbatim>\<open>jwt.verify\<close> with the refresh secret at the instant \<open>t\<close>: it
    either throws an error (its name and message are kept) or returns the payload, of
    which the controller reads \<^verbatim>\<open>payload.id\<close> (possibly \<^verbatim>\<open>undefined\<close>).
  \<^item> \<open>regexTest pat s\<close> says whether \<open>s\<close> matches \<^verbatim>\<open>{ $regex: pat, $options: 'i' }\<close>.
  \<^item> \<open>trim\<close> and \<open>toUpperCase\<close> are \<^verbatim>\<open>String.prototype.trim\<close> and
    \<^verbatim>\<open>String.prototype.toUpperCase\<close>; nothing is assumed of them, in particular not that
    \<open>toUpperCase\<close> keeps the length of a string.
\<close>

datatype jwt_result = JwtThrows string string | JwtPayload "string option"

record env =
  comparePassword :: "user \<Rightarrow> string option \<Rightarrow> bool"
  createAccessToken :: "user \<Rightarrow> nat \<Rightarrow> string"
  createRefreshToken :: "user \<Rightarrow> nat \<Rightarrow> string"
  hashPassword :: "string \<Rightarrow> string"
  jwtVerify :: "string \<Rightarrow> nat \<Rightarrow> jwt_result"
  regexTest :: "string \<Rightarrow> string \<Rightarrow> bool"
  trim :: "string \<Rightarrow> string"
  toUpperCase :: "string \<Rightarrow> string"

section \<open>Authentication controller\<close>

definition gateReply :: "string \<Rightarrow> string \<Rightarrow> reply" where
  "gateReply msg st =
     Reply 403 (JObj [(''message'', JStr msg), (''status'', JStr st), (''isApproved'', JBool False)])"

definition disapprovedReply :: reply where
  "disapprovedReply = gateReply
     ''Your account has been disapproved. Please contact support for assistance.''
     ''disapproved''"

definition pendingReply :: reply where
  "pendingReply = gateReply
     ''Your account is pending approval. Please wait for an administrator to approve your account.''
     ''pending''"

definition loggedInReply :: "env \<Rightarrow> nat \<Rightarrow> string \<Rightarrow> user \<Rightarrow> reply" where
  "loggedInReply E now msg u =
     Reply 200 (JObj [(''message'', JStr msg),
                      (''user'', toJSON u),
                      (''access_token'', JStr (createAccessToken E u now)),
                      (''refresh_token'', JStr (createRefreshToken E u now))])"

text \<open>
  \<^verbatim>\<open>login\<close>: the collection is only read. \<open>now\<close> is the instant of the request, here
  and in the other operations.
\<close>

definition login :: "env \<Rightarrow> nat \<Rightarrow> store \<Rightarrow> fields \<Rightarrow> error + reply" where
  "login E now db b =
     (let e = b ''email''; p = b ''password''; r = b ''role'' in
      if \<not> truthy e \<or> \<not> truthy p
      then Inl (BadRequestError ''Please provide email and password'')
      else if \<not> truthy r \<or> val r \<notin> set [''customer'', ''rider'', ''admin'']
      then Inl (BadRequestError ''Valid role is required (customer, rider, or admin)'')
      else
        (case findOne (\<lambda>u. email u = val e \<and> role u = val r) db of
           None \<Rightarrow> Inl (UnauthenticatedError ''Invalid credentials'')
         | Some u \<Rightarrow>
             if \<not> comparePassword E u p
             then Inl (UnauthenticatedError ''Invalid credentials'')
             else if val r \<noteq> ''admin'' \<and> status u = ''disapproved''
             then Inr disapprovedReply
             else if val r \<noteq> ''admin'' \<and> status u = ''pending''
             then Inr pendingReply
             else Inr (loggedInReply E now ''User logged in successfully'' u)))"

text \<open>
  \<^verbatim>\<open>register\<close>. \<open>newId\<close> is the \<^verbatim>\<open>_id\<close> the store gives the new document, whose
  creation time is \<open>now\<close>. The document sent back is the one that was saved, so its password is
  the stored hash.
\<close>

definition register :: "env \<Rightarrow> string \<Rightarrow> nat \<Rightarrow> store \<Rightarrow> fields \<Rightarrow> store \<times> (error + reply)" where
  "register E newId now db b =
     (let e = b ''email''; p = b ''password''; r = b ''role''; l = b ''licenseId'' in
      if \<not> truthy e \<or> \<not> truthy p
      then (db, Inl (BadRequestError ''Please provide email and password''))
      else if \<not> truthy r \<or> val r \<notin> set [''customer'', ''rider'']
      then (db, Inl (BadRequestError ''Valid role is required (customer or rider)''))
      else if findOne (\<lambda>u. email u = val e) db \<noteq> None
      then (db, Inl (BadRequestError ''Email already in use''))
      else
        (let formattedLicenseId =
               (if val r = ''rider'' \<and> truthy l then Some (toUpperCase E (trim E (val l))) else l)
         in if val r = ''rider'' \<and> truthy l \<and> length (val formattedLicenseId) < 4
            then (db, Inl (BadRequestError ''License ID must be at least 4 characters''))
            else
              (let u = \<lparr> uid = newId, email = val e,
                         password = Some (hashPassword E (val p)), role = val r,
                         firstName = b ''firstName'', middleName = b ''middleName'',
                         lastName = b ''lastName'', phone = b ''phone'',
                         schoolId = b ''schoolId'', licenseId = formattedLicenseId,
                         sex = b ''sex'', approved = False, status = ''pending'',
                         disapprovalReason = None, createdAt = now \<rparr>
               in (saveNew db u,
                   Inr (Reply 201 (JObj [
                     (''message'', JStr ''User registered successfully. Your account is pending approval.''),
                     (''user'', toJSON u),
                     (''access_token'', JStr (createAccessToken E u now)),
                     (''refresh_token'', JStr (createRefreshToken E u now)),
                     (''isApproved'', JBool False),
                     (''status'', JStr ''pending'')]))))))"

text \<open>
  \<^verbatim>\<open>auth\<close>, the legacy phone sign-in. \<open>rnd1\<close> and \<open>rnd2\<close> are the two strings
  \<^verbatim>\<open>Math.random().toString(36).slice(-8)\<close> of the throwaway password.
\<close>

definition auth :: "env \<Rightarrow> string \<Rightarrow> nat \<Rightarrow> string \<Rightarrow> string \<Rightarrow> store \<Rightarrow> fields \<Rightarrow> store \<times> (error + reply)" where
  "auth E newId now rnd1 rnd2 db b =
     (let ph = b ''phone''; r = b ''role'' in
      if \<not> truthy ph
      then (db, Inl (BadRequestError ''Phone number is required''))
      else if \<not> truthy r \<or> val r \<notin> set [''customer'', ''rider'']
      then (db, Inl (BadRequestError ''Valid role is required (customer or rider)''))
      else
        (case findOne (\<lambda>u. phone u = Some (val ph)) db of
           Some u \<Rightarrow>
             if role u \<noteq> val r
             then (db, Inl (BadRequestError ''Phone number and role do not match''))
             else if status u = ''disapproved''
             then (db, Inr disapprovedReply)
             else if status u = ''pending''
             then (db, Inr pendingReply)
             else (db, Inr (loggedInReply E now ''User logged in successfully'' u))
         | None \<Rightarrow>
             (let u = \<lparr> uid = newId, email = val ph @ ''@temp.ecoride.com'',
                        password = Some (hashPassword E (rnd1 @ rnd2)), role = val r,
                        firstName = None, middleName = None, lastName = None,
                        phone = Some (val ph), schoolId = None, licenseId = None,
                        sex = None, approved = False, status = ''pending'',
                        disapprovalReason = None, createdAt = now \<rparr>
              in (saveNew db u,
                  Inr (Reply 403 (JObj [
                    (''message'', JStr ''Account pending approval''),
                    (''status'', JStr ''pending''),
                    (''isApproved'', JBool False),
                    (''user'', JObj [(''_id'', JStr (uid u)),
                                     (''phone'', JStr (val (phone u))),
                                     (''role'', JStr (role u))])]))))))"



text \<open>
  \<^verbatim>\<open>getUserProfile\<close> and \<^verbatim>\<open>updateUserProfile\<close>; \<open>rid\<close> is \<^verbatim>\<open>req.user.id\<close>, set by the
  authentication middleware.
\<close>

definition getUserProfile :: "store \<Rightarrow> string \<Rightarrow> error + reply" where
  "getUserProfile db rid =
     (case map_option selectNoPassword (findById db rid) of
        None \<Rightarrow> Inl (UnauthenticatedError ''User not found'')
      | Some u \<Rightarrow> Inr (Reply 200 (JObj [(''user'', toJSON u)])))"

definition updateUserProfile :: "env \<Rightarrow> store \<Rightarrow> string \<Rightarrow> fields \<Rightarrow> store \<times> (error + reply)" where
  "updateUserProfile E db rid b =
     (case findById db rid of
        None \<Rightarrow> (db, Inl (UnauthenticatedError ''User not found''))
      | Some u0 \<Rightarrow>
          (let u1 = (if truthy (b ''firstName'') then u0\<lparr>firstName := b ''firstName''\<rparr> else u0);
               u2 = (if b ''middleName'' \<noteq> None then u1\<lparr>middleName := b ''middleName''\<rparr> else u1);
               u3 = (if truthy (b ''lastName'') then u2\<lparr>lastName := b ''lastName''\<rparr> else u2);
               u4 = (if truthy (b ''phone'') then u3\<lparr>phone := b ''phone''\<rparr> else u3);
               u5 = (if b ''schoolId'' \<noteq> None then u4\<lparr>schoolId := b ''schoolId''\<rparr> else u4);
               l = b ''licenseId'';
               formattedLicenseId = toUpperCase E (trim E (val l))
           in if l \<noteq> None \<and> role u5 = ''rider'' \<and> truthy l \<and> length formattedLicenseId < 4
              then (db, Inl (BadRequestError ''License ID must be at least 4 characters''))
              else
                (let u6 = (if l \<noteq> None
                           then (if role u5 = ''rider'' \<and> truthy l
                                 then u5\<lparr>licenseId := Some formattedLicenseId\<rparr>
                                 else u5\<lparr>licenseId := l\<rparr>)
                           else u5);
                     u7 = (if truthy (b ''sex'') then u6\<lparr>sex := b ''sex''\<rparr> else u6);
                     e = b ''email''
                 in if truthy e \<and> findOne (\<lambda>d. email d = val e \<and> uid d \<noteq> rid) db \<noteq> None
                    then (db, Inl (BadRequestError ''Email already in use''))
                    else
                      (let u8 = (if truthy e then u7\<lparr>email := val e\<rparr> else u7);
                           db' = save db u8
                       in (db',
                           Inr (Reply 200 (JObj [
                             (''message'', JStr ''Profile updated successfully''),
                             (''user'', userJSON (map_option selectNoPassword (findById db' rid)))])))))))"

text \<open>The \<^verbatim>\<open>/admin-login\<close> route of \<^verbatim>\<open>routes/auth.js\<close>; it answers by itself and throws nothing.\<close>

definition adminLogin :: "env \<Rightarrow> nat \<Rightarrow> store \<Rightarrow> fields \<Rightarrow> reply" where
  "adminLogin E now db b =
     (case findOne (\<lambda>u. Some (email u) = b ''email'' \<and> role u = ''admin'') db of
        None \<Rightarrow> Reply 401 (JObj [(''message'', JStr ''Invalid credentials'')])
      | Some admin \<Rightarrow>
          if \<not> comparePassword E admin (b ''password'')
          then Reply 401 (JObj [(''message'', JStr ''Invalid credentials'')])
          else loggedInReply E now ''Admin logged in successfully'' admin)"

section \<open>Administration controller\<close>

text \<open>
  The query object of \<^verbatim>\<open>getAllUsers\<close>. Each key holds one condition and an assignment
  to a key replaces what the key held: \<open>q_role\<close> is \<^verbatim>\<open>queryObject.role\<close>, an exact value
  or \<^verbatim>\<open>{ $ne: v }\<close>; \<open>q_approved\<close> is \<^verbatim>\<open>queryObject.approved\<close>; \<open>q_or\<close> is the search
  string of \<^verbatim>\<open>queryObject.$or\<close>, tested against first name, last name, email and phone.
\<close>

datatype role_cond = RoleEq string | RoleNe string

record queryObject =
  q_role :: "role_cond option"
  q_approved :: "bool option"
  q_or :: "string option"

definition regexField :: "env \<Rightarrow> string \<Rightarrow> string option \<Rightarrow> bool" where
  "regexField E pat v = (case v of None \<Rightarrow> False | Some s \<Rightarrow> regexTest E pat s)"

definition matches :: "env \<Rightarrow> queryObject \<Rightarrow> user \<Rightarrow> bool" where
  "matches E qo u =
     ((case q_role qo of
         None \<Rightarrow> True
       | Some (RoleEq r) \<Rightarrow> role u = r
       | Some (RoleNe r) \<Rightarrow> role u \<noteq> r)
      \<and> (case q_approved qo of None \<Rightarrow> True | Some a \<Rightarrow> approved u = a)
      \<and> (case q_or qo of
            None \<Rightarrow> True
          | Some pat \<Rightarrow>
              regexField E pat (firstName u) \<or> regexField E pat (lastName u)
              \<or> regexTest E pat (email u) \<or> regexField E pat (phone u)))"

definition buildQuery :: "fields \<Rightarrow> queryObject" where
  "buildQuery q =
     (let role_p = q ''role''; approved_p = q ''approved''; search = q ''search'';
          q0 = \<lparr> q_role = None, q_approved = None, q_or = None \<rparr>;
          q1 = (if truthy role_p then q0\<lparr>q_role := Some (RoleEq (val role_p))\<rparr> else q0);
          q2 = (if approved_p = Some ''true'' then q1\<lparr>q_approved := Some True\<rparr>
                else if approved_p = Some ''false'' then q1\<lparr>q_approved := Some False\<rparr>
                else q1);
          q3 = (if truthy search then q2\<lparr>q_or := Some (val search)\<rparr> else q2)
      in q3\<lparr>q_role := Some (RoleNe ''admin'')\<rparr>)"

text \<open>\<^verbatim>\<open>User.find(queryObject).select('-password').sort({ createdAt: -1 })\<close>.\<close>

definition findUsers :: "env \<Rightarrow> queryObject \<Rightarrow> store \<Rightarrow> user list" where
  "findUsers E qo db = rev (sort_key createdAt (map selectNoPassword (filter (matches E qo) db)))"

definition listedUsers :: "env \<Rightarrow> store \<Rightarrow> fields \<Rightarrow> user list" where
  "listedUsers E db q = findUsers E (buildQuery q) db"

definition getAllUsers :: "env \<Rightarrow> store \<Rightarrow> fields \<Rightarrow> reply" where
  "getAllUsers E db q =
     (let users = listedUsers E db q
      in Reply 200 (JObj [(''count'', JNum (length users)), (''users'', JArr (map toJSON users))]))"

text \<open>
  The \<^verbatim>\<open>catch\<close> blocks of the controller: an error is answered by its name; \<open>bad\<close> says
  whether the block has a branch for \<^verbatim>\<open>BadRequestError\<close>, and \<open>msg\<close> is the message of
  the last branch.
\<close>

definition adminCatch :: "bool \<Rightarrow> string \<Rightarrow> error \<Rightarrow> reply" where
  "adminCatch bad msg e =
     (if errorName e = ''NotFoundError''
      then Reply 404 (JObj [(''message'', JStr (errorMessage e))])
      else if bad \<and> errorName e = ''BadRequestError''
      then Reply 400 (JObj [(''message'', JStr (errorMessage e))])
      else Reply 500 (JObj [(''message'', JStr msg), (''error'', JStr (errorMessage e))]))"

definition noUser :: "string \<Rightarrow> error" where
  "noUser i = NotFoundError (''No user found with id '' @ i)"

definition getUserById :: "store \<Rightarrow> string \<Rightarrow> reply" where
  "getUserById db i =
     (case map_option selectNoPassword (findById db i) of
        None \<Rightarrow> adminCatch False ''Error fetching user'' (noUser i)
      | Some u \<Rightarrow> Reply 200 (JObj [(''user'', toJSON u)]))"

definition approveUser :: "store \<Rightarrow> string \<Rightarrow> store \<times> reply" where
  "approveUser db i =
     (case findById db i of
        None \<Rightarrow> (db, adminCatch False ''Error approving user'' (noUser i))
      | Some u \<Rightarrow>
          (let db' = save db (u\<lparr>status := ''approved''\<rparr>)
           in (db', Reply 200 (JObj [
                 (''message'', JStr ''User approved successfully''),
                 (''user'', userJSON (map_option selectNoPassword (findById db' i)))]))))"

definition disapproveUser :: "store \<Rightarrow> string \<Rightarrow> fields \<Rightarrow> store \<times> reply" where
  "disapproveUser db i b =
     (let reason = b ''reason'' in
      case findById db i of
        None \<Rightarrow> (db, adminCatch False ''Error disapproving user'' (noUser i))
      | Some u \<Rightarrow>
          (let db' = save db (u\<lparr>status := ''disapproved'',
                                 disapprovalReason :=
                                   Some (if truthy reason then val reason else ''No reason provided'')\<rparr>)
           in (db', Reply 200 (JObj [
                 (''message'', JStr ''User disapproved successfully''),
                 (''user'', userJSON (map_option selectNoPassword (findById db' i)))]))))"

text \<open>
  \<^verbatim>\<open>updateUser\<close>. \<open>approved_p\<close> is the \<^verbatim>\<open>approved\<close> field of the body, a JSON boolean or
  absent; the other fields are strings or absent.
\<close>

definition updateUser :: "store \<Rightarrow> string \<Rightarrow> fields \<Rightarrow> bool option \<Rightarrow> store \<times> reply" where
  "updateUser db i b approved_p =
     (case findById db i of
        None \<Rightarrow> (db, adminCatch True ''Error updating user'' (noUser i))
      | Some u0 \<Rightarrow>
          (let u1 = (if b ''firstName'' \<noteq> None then u0\<lparr>firstName := b ''firstName''\<rparr> else u0);
               u2 = (if b ''middleName'' \<noteq> None then u1\<lparr>middleName := b ''middleName''\<rparr> else u1);
               u3 = (if b ''lastName'' \<noteq> None then u2\<lparr>lastName := b ''lastName''\<rparr> else u2);
               u4 = (if b ''phone'' \<noteq> None then u3\<lparr>phone := b ''phone''\<rparr> else u3);
               u5 = (if b ''schoolId'' \<noteq> None then u4\<lparr>schoolId := b ''schoolId''\<rparr> else u4);
               u6 = (if b ''licenseId'' \<noteq> None then u5\<lparr>licenseId := b ''licenseId''\<rparr> else u5);
               u7 = (if b ''sex'' \<noteq> None then u6\<lparr>sex := b ''sex''\<rparr> else u6);
               u8 = (case approved_p of None \<Rightarrow> u7 | Some a \<Rightarrow> u7\<lparr>approved := a\<rparr>);
               e = b ''email''; r = b ''role''
           in if e \<noteq> None \<and> val e \<noteq> email u8
                 \<and> findOne (\<lambda>d. email d = val e \<and> uid d \<noteq> i) db \<noteq> None
              then (db, adminCatch True ''Error updating user'' (BadRequestError ''Email already in use''))
              else
                (let u9 = (if e \<noteq> None \<and> val e \<noteq> email u8 then u8\<lparr>email := val e\<rparr> else u8)
                 in if r \<noteq> None \<and> val r \<noteq> role u9 \<and> val r \<notin> set [''customer'', ''rider'']
                    then (db, adminCatch True ''Error updating user''
                                (BadRequestError ''Invalid role. Must be customer or rider''))
                    else
                      (let u10 = (if r \<noteq> None \<and> val r \<noteq> role u9 then u9\<lparr>role := val r\<rparr> else u9);
                           db' = save db u10
                       in (db', Reply 200 (JObj [
                             (''message'', JStr ''User updated successfully''),
                             (''user'', userJSON (map_option selectNoPassword (findById db' i)))]))))))"

definition deleteUser :: "store \<Rightarrow> string \<Rightarrow> store \<times> reply" where
  "deleteUser db i =
     (case findById db i of
        None \<Rightarrow> (db, adminCatch False ''Error deleting user'' (noUser i))
      | Some u \<Rightarrow>
          (findByIdAndDelete db i,
           Reply 200 (JObj [(''message'', JStr ''User deleted successfully''), (''userId'', JStr i)])))"

text \<open>A key of the \<^verbatim>\<open>user\<close> object of an answer; \<open>None\<close> when there is no such object or key.\<close>

definition userField :: "error + reply \<Rightarrow> string \<Rightarrow> json option" where
  "userField res k =
     (case res of
        Inl _ \<Rightarrow> None
      | Inr rep \<Rightarrow> (case field (payload rep) ''user'' of None \<Rightarrow> None | Some uj \<Rightarrow> field uj k))"

section \<open>A concrete instance\<close>

text \<open>
  An instance of the collaborators and two documents, on which the controllers are run
  with concrete requests. A character stands for the code unit of the same number.
  \<^item> \<open>demoTrim\<close> removes the white space of the language among the code units below 256:
    tab, line feed, vertical tab, form feed, carriage return, space and the no-break space
    \<open>0xA0\<close>.
  \<^item> \<open>demoUpper\<close> maps the letters \<open>a\<close> to \<open>z\<close> to \<open>A\<close> to \<open>Z\<close> and the sharp s \<open>0xDF\<close> to
    the two letters \<open>SS\<close>, as the language does, and keeps every other character; the
    requests below hold ASCII characters and the sharp s only.
  \<^item> A token names its kind, the account and the instant of issue, and verifies when it
    has the shape of a refresh token.
  \<^item> The regular expression test is a case-insensitive search of the pattern read as a
    literal string.
\<close>

definition demoSpace :: "char \<Rightarrow> bool" where
  "demoSpace c =
     (c \<in> set [CHR 0x09, CHR 0x0A, CHR 0x0B, CHR 0x0C, CHR 0x0D, CHR '' '', CHR 0xA0])"

definition demoTrim :: "string \<Rightarrow> string" where
  "demoTrim s = rev (dropWhile demoSpace (rev (dropWhile demoSpace s)))"

definition demoUpperChar :: "char \<Rightarrow> string" where
  "demoUpperChar c =
     (if c = CHR 0xDF then ''SS''
      else (case map_of (zip ''abcdefghijklmnopqrstuvwxyz'' ''ABCDEFGHIJKLMNOPQRSTUVWXYZ'') c of
              None \<Rightarrow> [c]
            | Some d \<Rightarrow> [d]))"

definition demoUpper :: "string \<Rightarrow> string" where
  "demoUpper s = concat (map demoUpperChar s)"

definition demoStamp :: "nat \<Rightarrow> string" where
  "demoStamp t = replicate t (CHR ''i'')"

definition demoEnv :: env where
  "demoEnv = \<lparr>
     comparePassword = (\<lambda>u p. p \<noteq> None \<and> password u = Some (''h:'' @ val p)),
     createAccessToken = (\<lambda>u t. ''access:'' @ uid u @ '':'' @ demoStamp t),
     createRefreshToken = (\<lambda>u t. ''refresh:'' @ uid u @ '':'' @ demoStamp t),
     hashPassword = (\<lambda>p. ''h:'' @ p),
     jwtVerify = (\<lambda>tok t. if take 8 tok = ''refresh:''
                          then JwtPayload (Some (takeWhile (\<lambda>c. c \<noteq> CHR '':'') (drop 8 tok)))
                          else JwtThrows ''JsonWebTokenError'' ''jwt malformed''),
     regexTest = (\<lambda>pat s. list_ex (\<lambda>k. take (length (demoUpper pat)) (drop k (demoUpper s)) = demoUpper pat)
                                     [0..<Suc (length (demoUpper s))]),
     trim = demoTrim,
     toUpperCase = demoUpper \<rparr>"

definition demoRider :: user where
  "demoRider = \<lparr> uid = ''u1'', email = ''a@x.com'', password = Some ''h:p1'', role = ''rider'',
     firstName = Some ''Ann'', middleName = None, lastName = Some ''Lee'',
     phone = Some ''0917'', schoolId = None, licenseId = Some ''AB12'', sex = Some ''F'',
     approved = False, status = ''pending'', disapprovalReason = None, createdAt = 1 \<rparr>"

definition demoAdmin :: user where
  "demoAdmin = \<lparr> uid = ''u0'', email = ''root@x.com'', password = Some ''h:s3'', role = ''admin'',
     firstName = Some ''Root'', middleName = None, lastName = Some ''Admin'',
     phone = None, schoolId = None, licenseId = None, sex = None,
     approved = False, status = ''pending'', disapprovalReason = None, createdAt = 0 \<rparr>"

section \<open>Facts about the collection\<close>

lemma find_uid: "find (\<lambda>u. uid u = i) db = Some u \<Longrightarrow> uid u = i \<and> u \<in> set db"
  by (induction db) (auto split: if_splits)

lemma find_replace_same:
  "find (\<lambda>u. uid u = i) db = Some u \<Longrightarrow> uid u' = i \<Longrightarrow>
   find (\<lambda>u. uid u = i) (map (\<lambda>d. if uid d = i then u' else d) db) = Some u'"
  by (induction db) (auto split: if_splits)

lemma find_replace_other:
  "j \<noteq> uid u' \<Longrightarrow>
   find (\<lambda>u. uid u = j) (map (\<lambda>d. if uid d = uid u' then u' else d) db) = find (\<lambda>u. uid u = j) db"
  by (induction db) auto

lemma find_append_other:
  "j \<noteq> uid u' \<Longrightarrow> find (\<lambda>u. uid u = j) (db @ [u']) = find (\<lambda>u. uid u = j) db"
  by (induction db) auto

lemma findById_uid: "findById db i = Some u \<Longrightarrow> uid u = i"
  using find_uid[of i db u] by (simp add: findById_def findOne_def)

lemma findById_save_same:
  assumes "findById db i = Some u" and "uid u' = i"
  shows "findById (save db u') i = Some u'"
proof -
  from assms(1) have f: "find (\<lambda>u. uid u = i) db = Some u"
    by (simp add: findById_def findOne_def)
  from find_uid[OF f] have "uid u \<in> uid ` set db" and "uid u = i"
    by blast+
  then have "uid u' \<in> set (map uid db)"
    using assms(2) by simp
  then have "save db u' = map (\<lambda>d. if uid d = uid u' then u' else d) db"
    by (simp add: save_def)
  then have "save db u' = map (\<lambda>d. if uid d = i then u' else d) db"
    by (simp only: assms(2))
  then show ?thesis
    by (simp only: findById_def findOne_def find_replace_same[OF f assms(2)])
qed

lemma findById_save_other:
  assumes "j \<noteq> uid u'"
  shows "findById (save db u') j = findById db j"
proof (cases "uid u' \<in> set (map uid db)")
  case True
  then show ?thesis
    by (simp only: findById_def findOne_def save_def if_True find_replace_other[OF assms])
next
  case False
  then show ?thesis
    by (simp only: findById_def findOne_def save_def if_False find_append_other[OF assms])
qed

text \<open>
  \<open>updateUserProfile\<close> on an existing account, with the document it saves described field
  by field.
\<close>

lemma updateUserProfile_cases:
  assumes "findById db rid = Some u0"
  shows "\<exists>u. uid u = rid
     \<and> firstName u = (if truthy (b ''firstName'') then b ''firstName'' else firstName u0)
     \<and> lastName u = (if truthy (b ''lastName'') then b ''lastName'' else lastName u0)
     \<and> phone u = (if truthy (b ''phone'') then b ''phone'' else phone u0)
     \<and> sex u = (if truthy (b ''sex'') then b ''sex'' else sex u0)
     \<and> middleName u = (if b ''middleName'' \<noteq> None then b ''middleName'' else middleName u0)
     \<and> schoolId u = (if b ''schoolId'' \<noteq> None then b ''schoolId'' else schoolId u0)
     \<and> licenseId u =
          (if b ''licenseId'' = None then licenseId u0
           else if role u0 = ''rider'' \<and> truthy (b ''licenseId'')
           then Some (toUpperCase E (trim E (val (b ''licenseId''))))
           else b ''licenseId'')
     \<and> updateUserProfile E db rid b =
         (if b ''licenseId'' \<noteq> None \<and> role u0 = ''rider'' \<and> truthy (b ''licenseId'')
               \<and> length (toUpperCase E (trim E (val (b ''licenseId'')))) < 4
          then (db, Inl (BadRequestError ''License ID must be at least 4 characters''))
          else if truthy (b ''email'')
                  \<and> findOne (\<lambda>d. email d = val (b ''email'') \<and> uid d \<noteq> rid) db \<noteq> None
          then (db, Inl (BadRequestError ''Email already in use''))
          else (save db u,
                Inr (Reply 200 (JObj [
                  (''message'', JStr ''Profile updated successfully''),
                  (''user'', userJSON (map_option selectNoPassword (findById (save db u) rid)))]))))"
proof -
  define u1 where "u1 = (if truthy (b ''firstName'') then u0\<lparr>firstName := b ''firstName''\<rparr> else u0)"
  define u2 where "u2 = (if b ''middleName'' \<noteq> None then u1\<lparr>middleName := b ''middleName''\<rparr> else u1)"
  define u3 where "u3 = (if truthy (b ''lastName'') then u2\<lparr>lastName := b ''lastName''\<rparr> else u2)"
  define u4 where "u4 = (if truthy (b ''phone'') then u3\<lparr>phone := b ''phone''\<rparr> else u3)"
  define u5 where "u5 = (if b ''schoolId'' \<noteq> None then u4\<lparr>schoolId := b ''schoolId''\<rparr> else u4)"
  define u6 where "u6 = (if b ''licenseId'' \<noteq> None
                           then (if role u5 = ''rider'' \<and> truthy (b ''licenseId'')
                                 then u5\<lparr>licenseId := Some (toUpperCase E (trim E (val (b ''licenseId''))))\<rparr>
                                 else u5\<lparr>licenseId := b ''licenseId''\<rparr>)
                           else u5)"
  define u7 where "u7 = (if truthy (b ''sex'') then u6\<lparr>sex := b ''sex''\<rparr> else u6)"
  define u8 where "u8 = (if truthy (b ''email'') then u7\<lparr>email := val (b ''email'')\<rparr> else u7)"
  note defs = u8_def u7_def u6_def u5_def u4_def u3_def u2_def u1_def
  have r5: "role u5 = role u0"
    by (simp add: u5_def u4_def u3_def u2_def u1_def)
  have unf: "updateUserProfile E db rid b =
      (if b ''licenseId'' \<noteq> None \<and> role u5 = ''rider'' \<and> truthy (b ''licenseId'')
            \<and> length (toUpperCase E (trim E (val (b ''licenseId'')))) < 4
       then (db, Inl (BadRequestError ''License ID must be at least 4 characters''))
       else if truthy (b ''email'')
               \<and> findOne (\<lambda>d. email d = val (b ''email'') \<and> uid d \<noteq> rid) db \<noteq> None
       then (db, Inl (BadRequestError ''Email already in use''))
       else (save db u8,
             Inr (Reply 200 (JObj [
               (''message'', JStr ''Profile updated successfully''),
               (''user'', userJSON (map_option selectNoPassword (findById (save db u8) rid)))]))))"
    unfolding updateUserProfile_def defs Let_def
    by (simp only: assms(1) option.case)
  have id0: "uid u0 = rid" using assms(1) by (rule findById_uid)
  have "uid u8 = rid"
    by (simp add: defs id0)
  moreover have "firstName u8 = (if truthy (b ''firstName'') then b ''firstName'' else firstName u0)"
    by (simp add: defs)
  moreover have "lastName u8 = (if truthy (b ''lastName'') then b ''lastName'' else lastName u0)"
    by (simp add: defs)
  moreover have "phone u8 = (if truthy (b ''phone'') then b ''phone'' else phone u0)"
    by (simp add: defs)
  moreover have "sex u8 = (if truthy (b ''sex'') then b ''sex'' else sex u0)"
    by (simp add: defs)
  moreover have "middleName u8 = (if b ''middleName'' \<noteq> None then b ''middleName'' else middleName u0)"
    by (simp add: defs)
  moreover have "schoolId u8 = (if b ''schoolId'' \<noteq> None then b ''schoolId'' else schoolId u0)"
    by (simp add: defs)
  moreover have "licenseId u8 =
          (if b ''licenseId'' = None then licenseId u0
           else if role u0 = ''rider'' \<and> truthy (b ''licenseId'')
           then Some (toUpperCase E (trim E (val (b ''licenseId''))))
           else b ''licenseId'')"
    unfolding u8_def u7_def u6_def r5 by (simp add: u5_def u4_def u3_def u2_def u1_def)
  ultimately show ?thesis
    using unf unfolding r5 by blast
qed

section \<open>Login\<close>

text \<open>
  C1. On \<open>login\<close>, a request for which no account matches the (email, role) pair and a
  request for which an account matches but the password comparison fails get the same
  answer, whatever the request; when the request carries an email, a password and a role
  among customer, rider and admin, that answer is the Unauthenticated error with the
  message "Invalid credentials" in both cases.
\<close>

theorem login_invalid_credentials_uniform:
  assumes "findOne (\<lambda>u. email u = val (b ''email'') \<and> role u = val (b ''role'')) db1 = None"
    and "findOne (\<lambda>u. email u = val (b ''email'') \<and> role u = val (b ''role'')) db2 = Some u"
    and "\<not> comparePassword E u (b ''password'')"
  shows "login E now db1 b = login E now db2 b \<and>
         (truthy (b ''email'') \<and> truthy (b ''password'')
            \<and> val (b ''role'') \<in> {''customer'', ''rider'', ''admin''}
          \<longrightarrow> login E now db1 b = Inl (UnauthenticatedError ''Invalid credentials'')
              \<and> login E now db2 b = Inl (UnauthenticatedError ''Invalid credentials''))"
  using assms by (auto simp: login_def Let_def truthy_def)

theorem login_invalid_credentials_uniform_witness:
  "login demoEnv 2 [] [''email'' \<mapsto> ''a@x.com'', ''password'' \<mapsto> ''p2'', ''role'' \<mapsto> ''rider'']
     = Inl (UnauthenticatedError ''Invalid credentials'')
   \<and> login demoEnv 2 [demoRider] [''email'' \<mapsto> ''a@x.com'', ''password'' \<mapsto> ''p2'', ''role'' \<mapsto> ''rider'']
     = Inl (UnauthenticatedError ''Invalid credentials'')"
  using login_invalid_credentials_uniform
    [where b = "[''email'' \<mapsto> ''a@x.com'', ''password'' \<mapsto> ''p2'', ''role'' \<mapsto> ''rider'']"
       and ?db1.0 = "[]" and ?db2.0 = "[demoRider]" and u = demoRider and E = demoEnv and now = 2]
  by (simp add: findOne_def demoRider_def demoEnv_def val_def truthy_def)

text \<open>
  C2. On \<open>login\<close>, once an account matches and its password compares equal: when the
  requested role is not admin and the account's status is "disapproved" or "pending", the
  answer is a 403 carrying that status and \<open>isApproved: false\<close>, with no access token and
  no refresh token; when the requested role is admin, the answer is a 200 carrying both
  tokens, whatever the status of the account.
\<close>

theorem login_approval_gate:
  assumes "truthy (b ''email'')" and "truthy (b ''password'')"
    and "val (b ''role'') \<in> {''customer'', ''rider'', ''admin''}"
    and "findOne (\<lambda>u. email u = val (b ''email'') \<and> role u = val (b ''role'')) db = Some u"
    and "comparePassword E u (b ''password'')"
  shows "(val (b ''role'') \<noteq> ''admin'' \<and> status u \<in> {''disapproved'', ''pending''} \<longrightarrow>
            (\<exists>rep. login E now db b = Inr rep \<and> code rep = 403
               \<and> field (payload rep) ''status'' = Some (JStr (status u))
               \<and> field (payload rep) ''isApproved'' = Some (JBool False)
               \<and> field (payload rep) ''access_token'' = None
               \<and> field (payload rep) ''refresh_token'' = None))
       \<and> (val (b ''role'') = ''admin'' \<longrightarrow>
            (\<exists>rep. login E now db b = Inr rep \<and> code rep = 200
               \<and> field (payload rep) ''access_token'' = Some (JStr (createAccessToken E u now))
               \<and> field (payload rep) ''refresh_token'' = Some (JStr (createRefreshToken E u now))))"
  using assms
  by (auto simp: login_def Let_def truthy_def field_def disapprovedReply_def pendingReply_def
        gateReply_def loggedInReply_def)

theorem login_approval_gate_witness:
  "(\<exists>rep. login demoEnv 2 [demoAdmin, demoRider]
             [''email'' \<mapsto> ''a@x.com'', ''password'' \<mapsto> ''p1'', ''role'' \<mapsto> ''rider''] = Inr rep
          \<and> code rep = 403
          \<and> field (payload rep) ''status'' = Some (JStr ''pending'')
          \<and> field (payload rep) ''isApproved'' = Some (JBool False)
          \<and> field (payload rep) ''access_token'' = None
          \<and> field (payload rep) ''refresh_token'' = None)
   \<and> (\<exists>rep. login demoEnv 2 [demoAdmin, demoRider]
             [''email'' \<mapsto> ''root@x.com'', ''password'' \<mapsto> ''s3'', ''role'' \<mapsto> ''admin''] = Inr rep
          \<and> code rep = 200
          \<and> field (payload rep) ''access_token'' = Some (JStr ''access:u0:ii'')
          \<and> field (payload rep) ''refresh_token'' = Some (JStr ''refresh:u0:ii''))"
  using login_approval_gate
    [where b = "[''email'' \<mapsto> ''a@x.com'', ''password'' \<mapsto> ''p1'', ''role'' \<mapsto> ''rider'']"
       and db = "[demoAdmin, demoRider]" and u = demoRider and E = demoEnv and now = 2]
    login_approval_gate
    [where b = "[''email'' \<mapsto> ''root@x.com'', ''password'' \<mapsto> ''s3'', ''role'' \<mapsto> ''admin'']"
       and db = "[demoAdmin, demoRider]" and u = demoAdmin and E = demoEnv and now = 2]
  by (simp add: findOne_def demoRider_def demoAdmin_def demoEnv_def demoStamp_def val_def truthy_def
        eval_nat_numeral)

section \<open>Answers that carry the account\<close>

lemma field_toJSON_password: "field (toJSON u) ''password'' = map_option JStr (password u)"
  by (simp add: field_def toJSON_def optField_def split: option.splits)

text \<open>
  C5. A successful \<open>login\<close> answers with the document as it was loaded, so the \<open>user\<close>
  object of the answer has the \<open>password\<close> key with the stored hash. The same holds for
  \<open>register\<close> and the admin login; the profile read, which loads the document with
  \<^verbatim>\<open>.select('-password')\<close>, has no such key.
\<close>

theorem login_answer_has_password:
  assumes "truthy (b ''email'')" and "truthy (b ''password'')"
    and "val (b ''role'') \<in> {''customer'', ''rider'', ''admin''}"
    and "findOne (\<lambda>u. email u = val (b ''email'') \<and> role u = val (b ''role'')) db = Some u"
    and "comparePassword E u (b ''password'')"
    and "val (b ''role'') = ''admin'' \<or> status u \<notin> {''disapproved'', ''pending''}"
  shows "userField (login E now db b) ''password'' = map_option JStr (password u)"
proof -
  have "login E now db b = Inr (loggedInReply E now ''User logged in successfully'' u)"
    using assms by (auto simp: login_def Let_def truthy_def)
  then show ?thesis
    by (simp add: userField_def loggedInReply_def field_def field_toJSON_password[unfolded field_def])
qed

theorem login_answer_has_password_witness:
  "userField (login demoEnv 2 [demoAdmin, demoRider\<lparr>status := ''approved''\<rparr>]
                [''email'' \<mapsto> ''a@x.com'', ''password'' \<mapsto> ''p1'', ''role'' \<mapsto> ''rider''])
             ''password'' = Some (JStr ''h:p1'')
   \<and> userField (snd (register demoEnv ''u2'' 2 [demoAdmin]
                [''email'' \<mapsto> ''b@x.com'', ''password'' \<mapsto> ''p7'', ''role'' \<mapsto> ''customer'']))
             ''password'' = Some (JStr ''h:p7'')
   \<and> userField (Inr (adminLogin demoEnv 2 [demoAdmin, demoRider]
                [''email'' \<mapsto> ''root@x.com'', ''password'' \<mapsto> ''s3'']))
             ''password'' = Some (JStr ''h:s3'')
   \<and> userField (getUserProfile [demoAdmin, demoRider] ''u1'') ''password'' = None"
proof -
  have "userField (login demoEnv 2 [demoAdmin, demoRider\<lparr>status := ''approved''\<rparr>]
                [''email'' \<mapsto> ''a@x.com'', ''password'' \<mapsto> ''p1'', ''role'' \<mapsto> ''rider''])
             ''password'' = Some (JStr ''h:p1'')"
    using login_answer_has_password
      [where b = "[''email'' \<mapsto> ''a@x.com'', ''password'' \<mapsto> ''p1'', ''role'' \<mapsto> ''rider'']"
         and db = "[demoAdmin, demoRider\<lparr>status := ''approved''\<rparr>]"
         and u = "demoRider\<lparr>status := ''approved''\<rparr>" and E = demoEnv and now = 2]
    by (simp add: findOne_def truthy_def val_def demoEnv_def demoAdmin_def demoRider_def)
  moreover have "userField (snd (register demoEnv ''u2'' 2 [demoAdmin]
                [''email'' \<mapsto> ''b@x.com'', ''password'' \<mapsto> ''p7'', ''role'' \<mapsto> ''customer'']))
             ''password'' = Some (JStr ''h:p7'')"
    by (simp add: userField_def register_def findOne_def Let_def truthy_def val_def demoEnv_def
          demoAdmin_def field_def toJSON_def optField_def saveNew_def)
  moreover have "userField (Inr (adminLogin demoEnv 2 [demoAdmin, demoRider]
                [''email'' \<mapsto> ''root@x.com'', ''password'' \<mapsto> ''s3'']))
             ''password'' = Some (JStr ''h:s3'')"
    by (simp add: userField_def adminLogin_def findOne_def val_def demoEnv_def
          demoAdmin_def loggedInReply_def field_def toJSON_def optField_def)
  moreover have "userField (getUserProfile [demoAdmin, demoRider] ''u1'') ''password'' = None"
    by (simp add: userField_def getUserProfile_def findById_def findOne_def
          demoAdmin_def demoRider_def field_def toJSON_def optField_def selectNoPassword_def)
  ultimately show ?thesis by blast
qed

section \<open>Legacy phone sign-in\<close>

text \<open>
  C9. On \<open>auth\<close>, when the request carries a phone and a role among customer and rider
  and no account has that phone, a new account is inserted with the placeholder email
  \<open>phone@temp.ecoride.com\<close>, the hash of the random password and the status "pending";
  the answer is a 403 with the keys message, status, isApproved and user only (so no
  tokens), and its \<open>user\<close> object has exactly the id, the phone and the role of the new
  account.
\<close>

theorem auth_first_contact:
  assumes "truthy (b ''phone'')"
    and "val (b ''role'') \<in> {''customer'', ''rider''}"
    and "findOne (\<lambda>u. phone u = Some (val (b ''phone''))) db = None"
  shows "\<exists>u rep. auth E newId now rnd1 rnd2 db b = (db @ [u], Inr rep)
           \<and> uid u = newId
           \<and> phone u = Some (val (b ''phone''))
           \<and> role u = val (b ''role'')
           \<and> email u = val (b ''phone'') @ ''@temp.ecoride.com''
           \<and> password u = Some (hashPassword E (rnd1 @ rnd2))
           \<and> status u = ''pending''
           \<and> code rep = 403
           \<and> keys (payload rep) = [''message'', ''status'', ''isApproved'', ''user'']
           \<and> field (payload rep) ''status'' = Some (JStr ''pending'')
           \<and> field (payload rep) ''isApproved'' = Some (JBool False)
           \<and> field (payload rep) ''user''
               = Some (JObj [(''_id'', JStr newId),
                             (''phone'', JStr (val (b ''phone''))),
                             (''role'', JStr (val (b ''role'')))])"
  using assms
  by (auto simp: auth_def Let_def truthy_def saveNew_def keys_def field_def val_def)

theorem auth_first_contact_witness:
  "\<exists>u rep. auth demoEnv ''u2'' 2 ''k3j9x0aa'' ''zz81mq4c'' [demoAdmin, demoRider]
              [''phone'' \<mapsto> ''0999'', ''role'' \<mapsto> ''customer'']
            = ([demoAdmin, demoRider] @ [u], Inr rep)
         \<and> email u = ''0999@temp.ecoride.com''
         \<and> password u = Some ''h:k3j9x0aazz81mq4c''
         \<and> status u = ''pending''
         \<and> code rep = 403
         \<and> keys (payload rep) = [''message'', ''status'', ''isApproved'', ''user'']
         \<and> field (payload rep) ''user''
               = Some (JObj [(''_id'', JStr ''u2''), (''phone'', JStr ''0999''), (''role'', JStr ''customer'')])"
proof -
  let ?b = "[''phone'' \<mapsto> ''0999'', ''role'' \<mapsto> ''customer'']"
  have h1: "truthy (?b ''phone'')"
    by (simp add: truthy_def val_def)
  have h2: "val (?b ''role'') \<in> {''customer'', ''rider''}"
    by (simp add: val_def)
  have h3: "findOne (\<lambda>u. phone u = Some (val (?b ''phone''))) [demoAdmin, demoRider] = None"
    by (simp add: findOne_def val_def demoAdmin_def demoRider_def)
  from auth_first_contact[OF h1 h2 h3, of demoEnv "''u2''" 2 "''k3j9x0aa''" "''zz81mq4c''"]
  obtain u rep where
    "auth demoEnv ''u2'' 2 ''k3j9x0aa'' ''zz81mq4c'' [demoAdmin, demoRider] ?b
       = ([demoAdmin, demoRider] @ [u], Inr rep)"
    "email u = val (?b ''phone'') @ ''@temp.ecoride.com''"
    "password u = Some (hashPassword demoEnv (''k3j9x0aa'' @ ''zz81mq4c''))"
    "status u = ''pending''" "code rep = 403"
    "keys (payload rep) = [''message'', ''status'', ''isApproved'', ''user'']"
    "field (payload rep) ''user''
       = Some (JObj [(''_id'', JStr ''u2''), (''phone'', JStr (val (?b ''phone''))),
                     (''role'', JStr (val (?b ''role'')))])"
    by blast
  then show ?thesis
    by (intro exI[of _ u] exI[of _ rep]) (simp add: val_def demoEnv_def)
qed

section \<open>Listing accounts\<close>

text \<open>
  C8. Whatever the role, approved and search filters, \<open>getAllUsers\<close> answers with the
  accounts of \<open>listedUsers\<close>, and none of them has the role admin.
\<close>

theorem listUsers_excludes_admin:
  "getAllUsers E db q =
     Reply 200 (JObj [(''count'', JNum (length (listedUsers E db q))),
                      (''users'', JArr (map toJSON (listedUsers E db q)))])
   \<and> (\<forall>u \<in> set (listedUsers E db q). role u \<noteq> ''admin'')"
  by (auto simp: getAllUsers_def listedUsers_def findUsers_def buildQuery_def Let_def matches_def
        selectNoPassword_def)

theorem listUsers_excludes_admin_witness:
  "listedUsers demoEnv [demoAdmin, demoRider] [''search'' \<mapsto> ''a''] = [demoRider\<lparr>password := None\<rparr>]
   \<and> role (demoRider\<lparr>password := None\<rparr>) \<noteq> ''admin''"
proof -
  have e: "listedUsers demoEnv [demoAdmin, demoRider] [''search'' \<mapsto> ''a'']
             = [demoRider\<lparr>password := None\<rparr>]"
    by code_simp
  from listUsers_excludes_admin[of demoEnv "[demoAdmin, demoRider]" "[''search'' \<mapsto> ''a'']"]
  have "\<forall>u \<in> set (listedUsers demoEnv [demoAdmin, demoRider] [''search'' \<mapsto> ''a'']). role u \<noteq> ''admin''"
    by (rule conjunct2)
  then show ?thesis
    unfolding e by simp
qed

text \<open>
  C4. The role filter of \<open>getAllUsers\<close> is replaced by the exclusion of admins before the
  query runs: a listing filtered on the role customer returns a rider.
\<close>

theorem listUsers_role_filter_ignored:
  "listedUsers demoEnv [demoAdmin, demoRider] [''role'' \<mapsto> ''customer''] = [demoRider\<lparr>password := None\<rparr>]
   \<and> role (demoRider\<lparr>password := None\<rparr>) = ''rider''"
  by (simp add: listedUsers_def findUsers_def buildQuery_def Let_def matches_def
        selectNoPassword_def demoAdmin_def demoRider_def demoEnv_def truthy_def val_def)

text \<open>The role filter never changes the listing.\<close>

lemma listedUsers_role_irrelevant:
  "listedUsers E db (q(''role'' := r)) = listedUsers E db q"
  by (simp add: listedUsers_def findUsers_def buildQuery_def Let_def matches_def)

section \<open>Approval\<close>

text \<open>
  C10. For an existing account, \<open>approveUser\<close> stores the account with its status set to
  "approved" and every other field as it was, the legacy \<open>approved\<close> flag and the
  disapproval reason included, and changes no other account; an account disapproved and
  then approved keeps the reason recorded by the disapproval.
\<close>

theorem approveUser_frame:
  assumes "findById db i = Some u"
  shows "findById (fst (approveUser db i)) i = Some (u\<lparr>status := ''approved''\<rparr>)
       \<and> approved (u\<lparr>status := ''approved''\<rparr>) = approved u
       \<and> disapprovalReason (u\<lparr>status := ''approved''\<rparr>) = disapprovalReason u
       \<and> (\<forall>j. j \<noteq> i \<longrightarrow> findById (fst (approveUser db i)) j = findById db j)
       \<and> findById (fst (approveUser (fst (disapproveUser db i b)) i)) i
           = Some (u\<lparr>status := ''approved'',
                     disapprovalReason :=
                       Some (if truthy (b ''reason'') then val (b ''reason'') else ''No reason provided'')\<rparr>)"
proof -
  have id: "uid u = i" using assms by (rule findById_uid)
  have a: "fst (approveUser db i) = save db (u\<lparr>status := ''approved''\<rparr>)"
    using assms by (simp add: approveUser_def Let_def)
  have 1: "findById (fst (approveUser db i)) i = Some (u\<lparr>status := ''approved''\<rparr>)"
    unfolding a using assms by (rule findById_save_same) (simp add: id)
  have 2: "\<forall>j. j \<noteq> i \<longrightarrow> findById (fst (approveUser db i)) j = findById db j"
    unfolding a using id by (simp add: findById_save_other)
  define v where "v = u\<lparr>status := ''disapproved'',
       disapprovalReason := Some (if truthy (b ''reason'') then val (b ''reason'') else ''No reason provided'')\<rparr>"
  have idv: "uid v = i" by (simp add: v_def id)
  have d: "fst (disapproveUser db i b) = save db v"
    using assms by (simp add: disapproveUser_def Let_def v_def)
  have dv: "findById (save db v) i = Some v"
    using assms idv by (rule findById_save_same)
  have "fst (approveUser (save db v) i) = save (save db v) (v\<lparr>status := ''approved''\<rparr>)"
    using dv by (simp add: approveUser_def Let_def)
  moreover have "findById (save (save db v) (v\<lparr>status := ''approved''\<rparr>)) i = Some (v\<lparr>status := ''approved''\<rparr>)"
    using dv by (rule findById_save_same) (simp add: idv)
  ultimately have 3: "findById (fst (approveUser (fst (disapproveUser db i b)) i)) i = Some (v\<lparr>status := ''approved''\<rparr>)"
    by (simp add: d)
  have 4: "v\<lparr>status := ''approved''\<rparr> = u\<lparr>status := ''approved'',
                     disapprovalReason :=
                       Some (if truthy (b ''reason'') then val (b ''reason'') else ''No reason provided'')\<rparr>"
    by (simp add: v_def)
  show ?thesis using 1 2 3 unfolding 4 by simp
qed

theorem approveUser_frame_witness:
  "findById (fst (approveUser (fst (disapproveUser [demoAdmin, demoRider] ''u1'' [''reason'' \<mapsto> ''fake id''])) ''u1'')) ''u1''
     = Some (demoRider\<lparr>status := ''approved'', disapprovalReason := Some ''fake id''\<rparr>)"
  using approveUser_frame[of "[demoAdmin, demoRider]" "''u1''" demoRider "[''reason'' \<mapsto> ''fake id'']"]
  by (simp add: findById_def findOne_def demoAdmin_def demoRider_def truthy_def val_def)

section \<open>Token refresh\<close>




section \<open>Profile update\<close>

text \<open>
  C7 as stated fails: a profile update whose \<open>sex\<close> field is present and is the empty
  string succeeds and leaves the stored \<open>sex\<close> as it was.
\<close>

theorem updateUserProfile_sex_counterexample:
  "[''sex'' \<mapsto> ''''] ''sex'' = Some ''''
   \<and> \<not> isl (snd (updateUserProfile demoEnv [demoAdmin, demoRider] ''u1'' [''sex'' \<mapsto> '''']))
   \<and> map_option sex (findById [demoAdmin, demoRider] ''u1'') = Some (Some ''F'')
   \<and> map_option sex (findById (fst (updateUserProfile demoEnv [demoAdmin, demoRider] ''u1'' [''sex'' \<mapsto> ''''])) ''u1'')
        = Some (Some ''F'')"
  by (simp add: updateUserProfile_def findById_def findOne_def save_def Let_def truthy_def val_def
        demoAdmin_def demoRider_def)

text \<open>
  C7, amended. When \<open>updateUserProfile\<close> succeeds on an existing account, the stored
  \<open>firstName\<close>, \<open>lastName\<close>, \<open>phone\<close> and \<open>sex\<close> are the supplied values when these are
  truthy and are unchanged otherwise (so an empty string is skipped); \<open>middleName\<close>,
  \<open>schoolId\<close> and \<open>licenseId\<close> are updated whenever the field is present, the empty
  string included, the \<open>licenseId\<close> of a rider being stored trimmed and uppercased when
  it is not empty; fields that are omitted are unchanged.
\<close>

theorem updateUserProfile_fields:
  assumes "findById db rid = Some u0"
    and "updateUserProfile E db rid b = (db', Inr rep)"
  shows "\<exists>u. findById db' rid = Some u
     \<and> firstName u = (if truthy (b ''firstName'') then b ''firstName'' else firstName u0)
     \<and> lastName u = (if truthy (b ''lastName'') then b ''lastName'' else lastName u0)
     \<and> phone u = (if truthy (b ''phone'') then b ''phone'' else phone u0)
     \<and> sex u = (if truthy (b ''sex'') then b ''sex'' else sex u0)
     \<and> middleName u = (if b ''middleName'' \<noteq> None then b ''middleName'' else middleName u0)
     \<and> schoolId u = (if b ''schoolId'' \<noteq> None then b ''schoolId'' else schoolId u0)
     \<and> licenseId u =
          (if b ''licenseId'' = None then licenseId u0
           else if role u0 = ''rider'' \<and> truthy (b ''licenseId'')
           then Some (toUpperCase E (trim E (val (b ''licenseId''))))
           else b ''licenseId'')"
proof -
  from updateUserProfile_cases[OF assms(1), where E = E and b = b] obtain u where
    id: "uid u = rid"
    and flds: "firstName u = (if truthy (b ''firstName'') then b ''firstName'' else firstName u0)"
      "lastName u = (if truthy (b ''lastName'') then b ''lastName'' else lastName u0)"
      "phone u = (if truthy (b ''phone'') then b ''phone'' else phone u0)"
      "sex u = (if truthy (b ''sex'') then b ''sex'' else sex u0)"
      "middleName u = (if b ''middleName'' \<noteq> None then b ''middleName'' else middleName u0)"
      "schoolId u = (if b ''schoolId'' \<noteq> None then b ''schoolId'' else schoolId u0)"
      "licenseId u =
          (if b ''licenseId'' = None then licenseId u0
           else if role u0 = ''rider'' \<and> truthy (b ''licenseId'')
           then Some (toUpperCase E (trim E (val (b ''licenseId''))))
           else b ''licenseId'')"
    and unf: "updateUserProfile E db rid b =
         (if b ''licenseId'' \<noteq> None \<and> role u0 = ''rider'' \<and> truthy (b ''licenseId'')
               \<and> length (toUpperCase E (trim E (val (b ''licenseId'')))) < 4
          then (db, Inl (BadRequestError ''License ID must be at least 4 characters''))
          else if truthy (b ''email'')
                  \<and> findOne (\<lambda>d. email d = val (b ''email'') \<and> uid d \<noteq> rid) db \<noteq> None
          then (db, Inl (BadRequestError ''Email already in use''))
          else (save db u,
                Inr (Reply 200 (JObj [
                  (''message'', JStr ''Profile updated successfully''),
                  (''user'', userJSON (map_option selectNoPassword (findById (save db u) rid)))]))))"
    by blast
  have "db' = save db u"
    using assms(2) unfolding unf by (simp split: if_splits)
  then have "findById db' rid = Some u"
    using findById_save_same[OF assms(1) id] by simp
  with flds show ?thesis by blast
qed

theorem updateUserProfile_fields_witness:
  "\<exists>u. findById (fst (updateUserProfile demoEnv [demoAdmin, demoRider] ''u1''
                  [''firstName'' \<mapsto> '''', ''middleName'' \<mapsto> '''', ''sex'' \<mapsto> '''',
                   ''lastName'' \<mapsto> ''Cruz'', ''licenseId'' \<mapsto> '' xy789 ''])) ''u1'' = Some u
      \<and> firstName u = Some ''Ann'' \<and> lastName u = Some ''Cruz'' \<and> phone u = Some ''0917''
      \<and> sex u = Some ''F'' \<and> middleName u = Some '''' \<and> schoolId u = None
      \<and> licenseId u = Some ''XY789''"
proof -
  let ?b = "[''firstName'' \<mapsto> '''', ''middleName'' \<mapsto> '''', ''sex'' \<mapsto> '''',
             ''lastName'' \<mapsto> ''Cruz'', ''licenseId'' \<mapsto> '' xy789 '']"
  let ?r = "updateUserProfile demoEnv [demoAdmin, demoRider] ''u1'' ?b"
  have h1: "findById [demoAdmin, demoRider] ''u1'' = Some demoRider"
    by (simp add: findById_def findOne_def demoAdmin_def demoRider_def)
  have "\<not> isl (snd ?r)"
    by code_simp
  then obtain rep where h2: "?r = (fst ?r, Inr rep)"
    by (cases ?r, cases "snd ?r") auto
  have n: "toUpperCase demoEnv (trim demoEnv '' xy789 '') = ''XY789''"
    by code_simp
  from updateUserProfile_fields[OF h1 h2]
  show ?thesis
    by (simp add: truthy_def val_def demoRider_def n)
qed

section \<open>Licence numbers\<close>

text \<open>
  C3 as stated fails in three places. A registration as a rider with the empty string as
  \<open>licenseId\<close> succeeds and stores the empty string, although it has fewer than 4
  characters. \<open>updateUser\<close> stores the \<open>licenseId\<close> of a rider as it is supplied: the
  value \<open>" ab "\<close> is stored with its spaces, in lower case, and is not refused. And the
  length that is tested is the length of the uppercased value: a registration with the
  three characters \<open>a\<close>, \<open>b\<close> and sharp s, which no trimming shortens, succeeds and stores
  the four letters \<open>ABSS\<close>.
\<close>

theorem licenseId_counterexample:
  "\<not> isl (snd (register demoEnv ''u2'' 2 [demoAdmin]
        [''email'' \<mapsto> ''r@x.com'', ''password'' \<mapsto> ''p9'', ''role'' \<mapsto> ''rider'', ''licenseId'' \<mapsto> '''']))
   \<and> map licenseId (fst (register demoEnv ''u2'' 2 [demoAdmin]
        [''email'' \<mapsto> ''r@x.com'', ''password'' \<mapsto> ''p9'', ''role'' \<mapsto> ''rider'', ''licenseId'' \<mapsto> '''']))
       = [None, Some '''']
   \<and> code (snd (updateUser [demoAdmin, demoRider] ''u1'' [''licenseId'' \<mapsto> '' ab ''] None)) = 200
   \<and> map_option licenseId
         (findById (fst (updateUser [demoAdmin, demoRider] ''u1'' [''licenseId'' \<mapsto> '' ab ''] None)) ''u1'')
       = Some (Some '' ab '')
   \<and> length (trim demoEnv [CHR ''a'', CHR ''b'', CHR 0xDF]) = 3
   \<and> \<not> isl (snd (register demoEnv ''u2'' 2 [demoAdmin]
        [''email'' \<mapsto> ''r@x.com'', ''password'' \<mapsto> ''p9'', ''role'' \<mapsto> ''rider'',
         ''licenseId'' \<mapsto> [CHR ''a'', CHR ''b'', CHR 0xDF]]))
   \<and> map licenseId (fst (register demoEnv ''u2'' 2 [demoAdmin]
        [''email'' \<mapsto> ''r@x.com'', ''password'' \<mapsto> ''p9'', ''role'' \<mapsto> ''rider'',
         ''licenseId'' \<mapsto> [CHR ''a'', CHR ''b'', CHR 0xDF]]))
       = [None, Some ''ABSS'']"
  by code_simp

text \<open>
  C3, amended. For every non-empty \<open>licenseId\<close> supplied for a rider, on registration and
  on the profile self-update, the value is trimmed and uppercased: if the result has
  fewer than 4 characters the operation fails with BadRequest and the collection is
  unchanged; otherwise, when the other checks of the operation pass, the operation
  succeeds and the stored value is that result. An empty \<open>licenseId\<close> is stored as it
  is, without the length check, on both operations.
\<close>

theorem licenseId_normalised:
  "(b ''role'' = Some ''rider'' \<and> b ''licenseId'' = Some l \<and> l \<noteq> [] \<longrightarrow>
      (length (toUpperCase E (trim E l)) < 4 \<longrightarrow>
         (\<exists>m. register E newId now db b = (db, Inl (BadRequestError m))))
    \<and> (4 \<le> length (toUpperCase E (trim E l)) \<and> truthy (b ''email'') \<and> truthy (b ''password'')
          \<and> findOne (\<lambda>u. email u = val (b ''email'')) db = None \<longrightarrow>
         (\<exists>u rep. register E newId now db b = (db @ [u], Inr rep)
             \<and> role u = ''rider''
             \<and> licenseId u = Some (toUpperCase E (trim E l)))))
   \<and> (findById db rid = Some u0 \<and> role u0 = ''rider'' \<and> c ''licenseId'' = Some l \<and> l \<noteq> [] \<longrightarrow>
      (length (toUpperCase E (trim E l)) < 4 \<longrightarrow>
         updateUserProfile E db rid c
           = (db, Inl (BadRequestError ''License ID must be at least 4 characters'')))
    \<and> (4 \<le> length (toUpperCase E (trim E l))
          \<and> \<not> (truthy (c ''email'')
                \<and> findOne (\<lambda>d. email d = val (c ''email'') \<and> uid d \<noteq> rid) db \<noteq> None) \<longrightarrow>
         (\<exists>db' rep u. updateUserProfile E db rid c = (db', Inr rep)
             \<and> findById db' rid = Some u
             \<and> licenseId u = Some (toUpperCase E (trim E l)))))
   \<and> (b ''role'' = Some ''rider'' \<and> b ''licenseId'' = Some [] \<and> truthy (b ''email'')
        \<and> truthy (b ''password'') \<and> findOne (\<lambda>u. email u = val (b ''email'')) db = None \<longrightarrow>
      (\<exists>u rep. register E newId now db b = (db @ [u], Inr rep)
          \<and> role u = ''rider'' \<and> licenseId u = Some []))
   \<and> (findById db rid = Some u0 \<and> c ''licenseId'' = Some []
        \<and> \<not> (truthy (c ''email'')
              \<and> findOne (\<lambda>d. email d = val (c ''email'') \<and> uid d \<noteq> rid) db \<noteq> None) \<longrightarrow>
      (\<exists>db' rep u. updateUserProfile E db rid c = (db', Inr rep)
          \<and> findById db' rid = Some u
          \<and> licenseId u = Some []))"
proof -
  have reg_fail: "\<exists>m. register E newId now db b = (db, Inl (BadRequestError m))"
    if "b ''role'' = Some ''rider''" "b ''licenseId'' = Some l" "l \<noteq> []"
       "length (toUpperCase E (trim E l)) < 4"
    using that
    by (simp add: register_def Let_def truthy_def val_def)
  have reg_ok: "\<exists>u rep. register E newId now db b = (db @ [u], Inr rep)
                   \<and> role u = ''rider'' \<and> licenseId u = Some (toUpperCase E (trim E l))"
    if "b ''role'' = Some ''rider''" "b ''licenseId'' = Some l" "l \<noteq> []"
       "4 \<le> length (toUpperCase E (trim E l))"
       "truthy (b ''email'')" "truthy (b ''password'')"
       "findOne (\<lambda>u. email u = val (b ''email'')) db = None"
    using that
    by (simp add: register_def Let_def truthy_def val_def saveNew_def)
  have reg_empty: "\<exists>u rep. register E newId now db b = (db @ [u], Inr rep)
                   \<and> role u = ''rider'' \<and> licenseId u = Some []"
    if "b ''role'' = Some ''rider''" "b ''licenseId'' = Some []"
       "truthy (b ''email'')" "truthy (b ''password'')"
       "findOne (\<lambda>u. email u = val (b ''email'')) db = None"
    using that
    by (simp add: register_def Let_def truthy_def val_def saveNew_def)
  have upd: "\<exists>u. uid u = rid
       \<and> licenseId u = (if l = [] \<or> role u0 \<noteq> ''rider'' then Some l
                         else Some (toUpperCase E (trim E l)))
       \<and> updateUserProfile E db rid c =
         (if l \<noteq> [] \<and> role u0 = ''rider'' \<and> length (toUpperCase E (trim E l)) < 4
          then (db, Inl (BadRequestError ''License ID must be at least 4 characters''))
          else if truthy (c ''email'')
                  \<and> findOne (\<lambda>d. email d = val (c ''email'') \<and> uid d \<noteq> rid) db \<noteq> None
          then (db, Inl (BadRequestError ''Email already in use''))
          else (save db u,
                Inr (Reply 200 (JObj [
                  (''message'', JStr ''Profile updated successfully''),
                  (''user'', userJSON (map_option selectNoPassword (findById (save db u) rid)))]))))"
    if f: "findById db rid = Some u0" and cl: "c ''licenseId'' = Some l" for l
  proof -
    have t: "truthy (c ''licenseId'') = (l \<noteq> [])" "val (c ''licenseId'') = l"
      using cl by (simp_all add: truthy_def val_def)
    from updateUserProfile_cases[OF f, where E = E and b = c] obtain u where
      id: "uid u = rid"
      and lic0: "licenseId u =
          (if c ''licenseId'' = None then licenseId u0
           else if role u0 = ''rider'' \<and> truthy (c ''licenseId'')
           then Some (toUpperCase E (trim E (val (c ''licenseId''))))
           else c ''licenseId'')"
      and unf0: "updateUserProfile E db rid c =
         (if c ''licenseId'' \<noteq> None \<and> role u0 = ''rider'' \<and> truthy (c ''licenseId'')
               \<and> length (toUpperCase E (trim E (val (c ''licenseId'')))) < 4
          then (db, Inl (BadRequestError ''License ID must be at least 4 characters''))
          else if truthy (c ''email'')
                  \<and> findOne (\<lambda>d. email d = val (c ''email'') \<and> uid d \<noteq> rid) db \<noteq> None
          then (db, Inl (BadRequestError ''Email already in use''))
          else (save db u,
                Inr (Reply 200 (JObj [
                  (''message'', JStr ''Profile updated successfully''),
                  (''user'', userJSON (map_option selectNoPassword (findById (save db u) rid)))]))))"
      by blast
    have "licenseId u = (if l = [] \<or> role u0 \<noteq> ''rider'' then Some l
                         else Some (toUpperCase E (trim E l)))"
      using lic0 t cl by simp
    moreover have "updateUserProfile E db rid c =
         (if l \<noteq> [] \<and> role u0 = ''rider'' \<and> length (toUpperCase E (trim E l)) < 4
          then (db, Inl (BadRequestError ''License ID must be at least 4 characters''))
          else if truthy (c ''email'')
                  \<and> findOne (\<lambda>d. email d = val (c ''email'') \<and> uid d \<noteq> rid) db \<noteq> None
          then (db, Inl (BadRequestError ''Email already in use''))
          else (save db u,
                Inr (Reply 200 (JObj [
                  (''message'', JStr ''Profile updated successfully''),
                  (''user'', userJSON (map_option selectNoPassword (findById (save db u) rid)))]))))"
      unfolding unf0 using t cl by auto
    ultimately show ?thesis
      using id by blast
  qed
  have upd_fail: "updateUserProfile E db rid c
           = (db, Inl (BadRequestError ''License ID must be at least 4 characters''))"
    if "findById db rid = Some u0" "role u0 = ''rider''" "c ''licenseId'' = Some l" "l \<noteq> []"
       "length (toUpperCase E (trim E l)) < 4"
    using upd[OF that(1) that(3)] that(2,4,5) by auto
  have upd_ok: "\<exists>db' rep u. updateUserProfile E db rid c = (db', Inr rep)
             \<and> findById db' rid = Some u
             \<and> licenseId u = Some (toUpperCase E (trim E l))"
    if p: "findById db rid = Some u0" "role u0 = ''rider''" "c ''licenseId'' = Some l" "l \<noteq> []"
       "4 \<le> length (toUpperCase E (trim E l))"
       "\<not> (truthy (c ''email'')
                \<and> findOne (\<lambda>d. email d = val (c ''email'') \<and> uid d \<noteq> rid) db \<noteq> None)"
  proof -
    from upd[OF p(1) p(3)] obtain u where
      id: "uid u = rid" and lic: "licenseId u = Some (toUpperCase E (trim E l))"
      and r: "updateUserProfile E db rid c =
          (save db u,
                Inr (Reply 200 (JObj [
                  (''message'', JStr ''Profile updated successfully''),
                  (''user'', userJSON (map_option selectNoPassword (findById (save db u) rid)))])))"
      using p(2,4,5,6) by auto
    have "findById (save db u) rid = Some u"
      using p(1) id by (rule findById_save_same)
    with lic r show ?thesis by blast
  qed
  have upd_empty: "\<exists>db' rep u. updateUserProfile E db rid c = (db', Inr rep)
             \<and> findById db' rid = Some u
             \<and> licenseId u = Some []"
    if q: "findById db rid = Some u0" "c ''licenseId'' = Some []"
       "\<not> (truthy (c ''email'')
                \<and> findOne (\<lambda>d. email d = val (c ''email'') \<and> uid d \<noteq> rid) db \<noteq> None)"
  proof -
    from upd[OF q(1) q(2)] obtain u where
      id: "uid u = rid" and lic: "licenseId u = Some []"
      and r: "updateUserProfile E db rid c =
          (save db u,
                Inr (Reply 200 (JObj [
                  (''message'', JStr ''Profile updated successfully''),
                  (''user'', userJSON (map_option selectNoPassword (findById (save db u) rid)))])))"
      using q(3) by auto
    have "findById (save db u) rid = Some u"
      using q(1) id by (rule findById_save_same)
    with lic r show ?thesis by blast
  qed
  show ?thesis
    using reg_fail reg_ok reg_empty upd_fail upd_ok upd_empty by blast
qed

theorem licenseId_normalised_witness:
  "(\<exists>u rep. register demoEnv ''u2'' 2 [demoAdmin]
               [''email'' \<mapsto> ''r@x.com'', ''password'' \<mapsto> ''p9'', ''role'' \<mapsto> ''rider'',
                ''licenseId'' \<mapsto> '' ab12 '']
             = ([demoAdmin] @ [u], Inr rep)
          \<and> role u = ''rider'' \<and> licenseId u = Some ''AB12'')
   \<and> updateUserProfile demoEnv [demoAdmin, demoRider] ''u1'' [''licenseId'' \<mapsto> '' x1 '']
       = ([demoAdmin, demoRider], Inl (BadRequestError ''License ID must be at least 4 characters''))
   \<and> (\<exists>u rep. register demoEnv ''u2'' 2 [demoAdmin]
               [''email'' \<mapsto> ''r@x.com'', ''password'' \<mapsto> ''p9'', ''role'' \<mapsto> ''rider'',
                ''licenseId'' \<mapsto> '''']
             = ([demoAdmin] @ [u], Inr rep)
          \<and> role u = ''rider'' \<and> licenseId u = Some '''')
   \<and> (\<exists>db' rep u. updateUserProfile demoEnv [demoAdmin, demoRider] ''u1'' [''licenseId'' \<mapsto> '''']
             = (db', Inr rep)
          \<and> findById db' ''u1'' = Some u \<and> licenseId u = Some '''')"
proof -
  let ?b = "[''email'' \<mapsto> ''r@x.com'', ''password'' \<mapsto> ''p9'', ''role'' \<mapsto> ''rider'',
             ''licenseId'' \<mapsto> '' ab12 '']"
  let ?e = "[''email'' \<mapsto> ''r@x.com'', ''password'' \<mapsto> ''p9'', ''role'' \<mapsto> ''rider'',
             ''licenseId'' \<mapsto> '''']"
  have n1: "toUpperCase demoEnv (trim demoEnv '' ab12 '') = ''AB12''"
    and n2: "toUpperCase demoEnv (trim demoEnv '' x1 '') = ''X1''"
    by code_simp+
  have f: "findOne (\<lambda>u. email u = val (?b ''email'')) [demoAdmin] = None"
    and fe: "findOne (\<lambda>u. email u = val (?e ''email'')) [demoAdmin] = None"
    by (simp_all add: findOne_def val_def demoAdmin_def)
  have g: "findById [demoAdmin, demoRider] ''u1'' = Some demoRider"
    by (simp add: findById_def findOne_def demoAdmin_def demoRider_def)
  have r: "role demoRider = ''rider''"
    by (simp add: demoRider_def)
  note T = licenseId_normalised[where E = demoEnv and newId = "''u2''" and now = 2
             and rid = "''u1''" and ?u0.0 = demoRider]
  have 1: "\<exists>u rep. register demoEnv ''u2'' 2 [demoAdmin] ?b = ([demoAdmin] @ [u], Inr rep)
          \<and> role u = ''rider'' \<and> licenseId u = Some ''AB12''"
    using T[where b = ?b and db = "[demoAdmin]" and l = "'' ab12 ''", THEN conjunct1] f
    by (simp add: n1 truthy_def val_def)
  have 2: "updateUserProfile demoEnv [demoAdmin, demoRider] ''u1'' [''licenseId'' \<mapsto> '' x1 '']
       = ([demoAdmin, demoRider], Inl (BadRequestError ''License ID must be at least 4 characters''))"
    using T[where c = "[''licenseId'' \<mapsto> '' x1 '']" and db = "[demoAdmin, demoRider]"
              and l = "'' x1 ''", THEN conjunct2, THEN conjunct1] g r
    by (simp add: n2)
  have 3: "\<exists>u rep. register demoEnv ''u2'' 2 [demoAdmin] ?e = ([demoAdmin] @ [u], Inr rep)
          \<and> role u = ''rider'' \<and> licenseId u = Some ''''"
    using T[where b = ?e and db = "[demoAdmin]", THEN conjunct2, THEN conjunct2, THEN conjunct1] fe
    by (simp add: truthy_def val_def)
  have 4: "\<exists>db' rep u. updateUserProfile demoEnv [demoAdmin, demoRider] ''u1'' [''licenseId'' \<mapsto> '''']
             = (db', Inr rep)
          \<and> findById db' ''u1'' = Some u \<and> licenseId u = Some ''''"
    using T[where c = "[''licenseId'' \<mapsto> '''']" and db = "[demoAdmin, demoRider]",
            THEN conjunct2, THEN conjunct2, THEN conjunct2] g
    by (simp add: truthy_def val_def)
  from 1 2 3 4 show ?thesis by blast
qed

end
